theory Spec2Isabelle
  imports Main
begin

section \<open>Values\<close>

text \<open>
  The dictionary cursor of \<^verbatim>\<open>get_content_records\<close> yields one Python dict per row of
  \<^verbatim>\<open>cokw3_content\<close>. A column value is \<^verbatim>\<open>None\<close> (SQL NULL), an integer or a text.
  Texts are lists of characters; a character stands for a code point below 256.
\<close>

datatype sqlval = Null | IntV int | StrV string

type_synonym content_record = "(string \<times> sqlval) list"

text \<open>
  What \<^verbatim>\<open>json.loads\<close> and \<^verbatim>\<open>response.json()\<close> produce: \<^verbatim>\<open>None\<close>, a bool, an int, a float,
  a str, a list or a dict with string keys. A dict is an association list read with
  \<^const>\<open>map_of\<close>. A float is a finite value \<open>m * 2 ^ e\<close>, an infinity or a NaN.
\<close>

datatype pyfloat = Finite int int | Infinite bool | NaN

datatype json =
    JNull
  | JBool bool
  | JInt int
  | JFloat pyfloat
  | JStr string
  | JArr "json list"
  | JObj "(string \<times> json) list"

text \<open>The exceptions that the modelled code paths can raise.\<close>

datatype exn =
    KeyError
  | TypeError
  | AttributeError
  | JSONDecodeError
  | HTTPError
  | RequestException
  | IndexError
  | ParserRejectedMarkup

section \<open>Python primitives used by the script\<close>

text \<open>\<^verbatim>\<open>str.isspace\<close> on one code point below 256.\<close>

definition isspace :: "char \<Rightarrow> bool" where
  "isspace c =
     (let n = (of_char c :: nat)
      in (9 \<le> n \<and> n \<le> 13) \<or> (28 \<le> n \<and> n \<le> 32) \<or> n = 133 \<or> n = 160)"

text \<open>\<^verbatim>\<open>s.strip()\<close>: leading and trailing whitespace removed.\<close>

definition strip :: "string \<Rightarrow> string" where
  "strip s = rev (dropWhile isspace (rev (dropWhile isspace s)))"

text \<open>\<^verbatim>\<open>str(n)\<close> for an integer: its decimal digits, with a sign when negative.\<close>

function str_nat :: "nat \<Rightarrow> string" where
  "str_nat n =
     (if n < 10 then [char_of (48 + n)]
      else str_nat (n div 10) @ [char_of (48 + n mod 10)])"
  by pat_completeness auto
termination
  by (relation "measure id") auto

declare str_nat.simps [simp del]

definition str_int :: "int \<Rightarrow> string" where
  "str_int i = (if i < 0 then CHR ''-'' # str_nat (nat (- i)) else str_nat (nat i))"

text \<open>\<^verbatim>\<open>str(v)\<close> for a column value.\<close>

fun py_str :: "sqlval \<Rightarrow> string" where
  "py_str Null = ''None''"
| "py_str (IntV i) = str_int i"
| "py_str (StrV s) = s"

text \<open>Truthiness (\<^verbatim>\<open>bool(v)\<close>) of a column value and of a decoded JSON value.\<close>

fun truthy_sql :: "sqlval \<Rightarrow> bool" where
  "truthy_sql Null = False"
| "truthy_sql (IntV i) = (i \<noteq> 0)"
| "truthy_sql (StrV s) = (s \<noteq> [])"

fun truthy :: "json \<Rightarrow> bool" where
  "truthy JNull = False"
| "truthy (JBool b) = b"
| "truthy (JInt i) = (i \<noteq> 0)"
| "truthy (JFloat (Finite m e)) = (m \<noteq> 0)"
| "truthy (JFloat (Infinite s)) = True"
| "truthy (JFloat NaN) = True"
| "truthy (JStr s) = (s \<noteq> [])"
| "truthy (JArr xs) = (xs \<noteq> [])"
| "truthy (JObj kvs) = (kvs \<noteq> [])"

text \<open>\<^verbatim>\<open>d.get(k, default)\<close> and \<^verbatim>\<open>d[k]\<close> on a record.\<close>

definition dict_get :: "content_record \<Rightarrow> string \<Rightarrow> sqlval \<Rightarrow> sqlval" where
  "dict_get d k dflt = (case map_of d k of None \<Rightarrow> dflt | Some v \<Rightarrow> v)"

definition dict_item :: "content_record \<Rightarrow> string \<Rightarrow> exn + sqlval" where
  "dict_item d k = (case map_of d k of None \<Rightarrow> Inl KeyError | Some v \<Rightarrow> Inr v)"

text \<open>
  \<^verbatim>\<open>s.replace(old, new)\<close>: every non-overlapping occurrence of \<open>old\<close>, from the left.
  With an empty \<open>old\<close>, \<open>new\<close> is put before every character and at the end.
\<close>

function replace_from :: "string \<Rightarrow> string \<Rightarrow> string \<Rightarrow> string" where
  "replace_from old new [] = []"
| "replace_from old new (c # cs) =
     (if old \<noteq> [] \<and> take (length old) (c # cs) = old
      then new @ replace_from old new (drop (length old) (c # cs))
      else c # replace_from old new cs)"
  by pat_completeness auto
termination
  by (relation "measure (\<lambda>(old, new, s). length s)") auto

definition replace :: "string \<Rightarrow> string \<Rightarrow> string \<Rightarrow> string" where
  "replace s old new =
     (if old = [] then new @ concat (map (\<lambda>c. c # new) s) else replace_from old new s)"

text \<open>\<^verbatim>\<open>sub in s\<close> on two strings.\<close>

fun is_infix :: "string \<Rightarrow> string \<Rightarrow> bool" where
  "is_infix p [] = (p = [])"
| "is_infix p (c # cs) = (take (length p) (c # cs) = p \<or> is_infix p cs)"

text \<open>Running the next statement unless the previous one raised.\<close>

definition andthen :: "exn + 'a \<Rightarrow> ('a \<Rightarrow> exn + 'b) \<Rightarrow> exn + 'b" where
  "andthen r f = (case r of Inl e \<Rightarrow> Inl e | Inr v \<Rightarrow> f v)"

text \<open>\<^verbatim>\<open>key in obj\<close>, \<^verbatim>\<open>obj[key]\<close>, \<^verbatim>\<open>len(obj)\<close> and \<^verbatim>\<open>obj[0]\<close> on a decoded JSON value.\<close>

fun contains_str :: "string \<Rightarrow> json \<Rightarrow> exn + bool" where
  "contains_str k (JObj kvs) = Inr (k \<in> set (map fst kvs))"
| "contains_str k (JArr xs) = Inr (JStr k \<in> set xs)"
| "contains_str k (JStr s) = Inr (is_infix k s)"
| "contains_str k _ = Inl TypeError"

fun item_str :: "json \<Rightarrow> string \<Rightarrow> exn + json" where
  "item_str (JObj kvs) k = (case map_of kvs k of None \<Rightarrow> Inl KeyError | Some v \<Rightarrow> Inr v)"
| "item_str _ k = Inl TypeError"

fun py_len :: "json \<Rightarrow> exn + nat" where
  "py_len (JArr xs) = Inr (length xs)"
| "py_len (JStr s) = Inr (length s)"
| "py_len (JObj kvs) = Inr (length (remdups (map fst kvs)))"
| "py_len _ = Inl TypeError"

fun item_0 :: "json \<Rightarrow> exn + json" where
  "item_0 (JArr []) = Inl IndexError"
| "item_0 (JArr (x # xs)) = Inr x"
| "item_0 (JStr []) = Inl IndexError"
| "item_0 (JStr (c # cs)) = Inr (JStr [c])"
| "item_0 (JObj kvs) = Inl KeyError"
| "item_0 _ = Inl TypeError"

section \<open>The outside world\<close>

text \<open>
  What the script does to the outside world is recorded as a trace of events: one HTTP
  request to the generation service (with the title and the cleaned content that its
  prompt is built from), one call on the database connection (with whether it completed
  or raised \<^verbatim>\<open>mysql.connector.Error\<close>), one \<^verbatim>\<open>time.sleep\<close>.
\<close>

datatype db_op =
    Cursor
  | ExecuteSelect "int option"
  | Fetchall
  | ExecuteUpdate json json sqlval
  | Commit

datatype event = Post string string | Db db_op bool | Sleep nat

text \<open>
  \<^verbatim>\<open>requests.post\<close> either raises (connection failure, timeout) or returns a response with
  a status code and a body.
\<close>

datatype post_result = RequestFailed | Response nat string

text \<open>
  The collaborators that are not part of the script. The answers of the service and the
  failures of the database may depend on everything that happened before.
  \<^item> \<open>get_text\<close>: \<^verbatim>\<open>BeautifulSoup(html, 'html.parser').get_text()\<close>, the text of the parsed
    markup, or the exception that the constructor raises: \<^verbatim>\<open>html.parser\<close> gives up on some
    malformed declarations (the marked section \<^verbatim>\<open><![foo]>\<close>, for one) and \<^verbatim>\<open>BeautifulSoup\<close>
    then raises \<^verbatim>\<open>ParserRejectedMarkup\<close>.
  \<^item> \<open>json_loads\<close>: \<^verbatim>\<open>json.loads\<close>, \<open>None\<close> when it raises \<^verbatim>\<open>JSONDecodeError\<close>.
  \<^item> \<open>requests_post\<close>: the outcome of the request for a title and a content.
  \<^item> \<open>db_raises\<close>: whether a call on the connection raises \<^verbatim>\<open>mysql.connector.Error\<close>.
  \<^item> \<open>content_table\<close>: the rows of \<^verbatim>\<open>cokw3_content\<close> that the connection sees.
\<close>

record env =
  get_text :: "string \<Rightarrow> exn + string"
  json_loads :: "string \<Rightarrow> json option"
  requests_post :: "event list \<Rightarrow> string \<Rightarrow> string \<Rightarrow> post_result"
  db_raises :: "event list \<Rightarrow> db_op \<Rightarrow> bool"
  content_table :: "content_record list"

definition API_DELAY :: nat where
  "API_DELAY = 1"

text \<open>One call on the connection or its cursor, inside a \<^verbatim>\<open>try ... except Error\<close>.\<close>

definition db_call :: "env \<Rightarrow> db_op \<Rightarrow> event list \<Rightarrow> bool \<times> event list" where
  "db_call env op tr = (let ok = \<not> db_raises env tr op in (ok, tr @ [Db op ok]))"

section \<open>The script\<close>

subsection \<open>Content selector\<close>

text \<open>
  How the server answers \<^verbatim>\<open>SELECT ... FROM cokw3_content ORDER BY id\<close>, with
  \<^verbatim>\<open>LIMIT n\<close> appended or not: the rows by ascending \<^verbatim>\<open>id\<close>, the first \<open>n\<close> of them under a
  limit; a negative number after \<^verbatim>\<open>LIMIT\<close> is a syntax error.
\<close>

definition row_id :: "content_record \<Rightarrow> int" where
  "row_id r = (case map_of r ''id'' of Some (IntV i) \<Rightarrow> i | _ \<Rightarrow> 0)"

definition select_rows :: "content_record list \<Rightarrow> int option \<Rightarrow> content_record list option" where
  "select_rows rows lim =
     (case lim of
        None \<Rightarrow> Some (sort_key row_id rows)
      | Some n \<Rightarrow> if n < 0 then None else Some (take (nat n) (sort_key row_id rows)))"

text \<open>
  \<^verbatim>\<open>get_content_records(connection, limit)\<close>. The limit is \<^verbatim>\<open>None\<close> or an integer; the clause
  is appended under \<^verbatim>\<open>if limit:\<close>. The result \<open>None\<close> is the \<^verbatim>\<open>None\<close> returned from the
  \<^verbatim>\<open>except Error\<close> branch.
\<close>

definition get_content_records ::
  "env \<Rightarrow> int option \<Rightarrow> event list \<Rightarrow> content_record list option \<times> event list" where
  "get_content_records env limit tr =
     (let (ok1, tr1) = db_call env Cursor tr in
      if \<not> ok1 then (None, tr1)
      else
        let clause = (case limit of None \<Rightarrow> None | Some n \<Rightarrow> if n \<noteq> 0 then Some n else None);
            answer = select_rows (content_table env) clause;
            raised = (db_raises env tr1 (ExecuteSelect clause) \<or> answer = None);
            tr2 = tr1 @ [Db (ExecuteSelect clause) (\<not> raised)]
        in if raised then (None, tr2)
           else
             let (ok3, tr3) = db_call env Fetchall tr2 in
             if \<not> ok3 then (None, tr3) else (answer, tr3))"

subsection \<open>HTML text extractor\<close>

text \<open>
  \<^verbatim>\<open>clean_html_text(html)\<close>. \<^verbatim>\<open>BeautifulSoup\<close> takes a string; given a non-zero integer its
  constructor raises \<^verbatim>\<open>TypeError\<close>. There is no handler around the parser: what it raises
  leaves \<^verbatim>\<open>clean_html_text\<close>, \<^verbatim>\<open>get_clean_content\<close> and, at line 134, the loop.
\<close>

definition clean_html_text :: "env \<Rightarrow> sqlval \<Rightarrow> exn + string" where
  "clean_html_text env html =
     (if \<not> truthy_sql html then Inr []
      else (case html of
              StrV s \<Rightarrow>
                (case get_text env s of
                   Inl e \<Rightarrow> Inl e
                 | Inr text \<Rightarrow> Inr (strip text))
            | _ \<Rightarrow> Inl TypeError))"

definition get_clean_content :: "env \<Rightarrow> content_record \<Rightarrow> exn + string" where
  "get_clean_content env record =
     (let content = dict_get record ''fulltext'' (StrV []);
          content = (if \<not> truthy_sql content \<or> strip (py_str content) = []
                     then dict_get record ''introtext'' (StrV [])
                     else content)
      in clean_html_text env content)"

subsection \<open>Metadata generator\<close>

text \<open>Line 98: the code-fence markers are deleted and the rest is trimmed.\<close>

definition strip_fences :: "string \<Rightarrow> string" where
  "strip_fences s = strip (replace (replace s ''```json'' []) ''```'' [])"

text \<open>
  Lines 96 to 99 and the fall-through to \<^verbatim>\<open>return None\<close>: what becomes of the decoded
  response, before the \<^verbatim>\<open>except Exception\<close>.
\<close>

definition extract_meta :: "env \<Rightarrow> json \<Rightarrow> exn + json" where
  "extract_meta env result =
     andthen (contains_str ''choices'' result) (\<lambda>has.
       if \<not> has then Inr JNull
       else
         andthen (item_str result ''choices'') (\<lambda>choices.
         andthen (py_len choices) (\<lambda>n.
           if \<not> 0 < n then Inr JNull
           else
             andthen (item_0 choices) (\<lambda>choice.
             andthen (item_str choice ''message'') (\<lambda>message.
             andthen (item_str message ''content'') (\<lambda>content.
               case content of
                 JStr s \<Rightarrow>
                   (case json_loads env (strip_fences s) of
                      None \<Rightarrow> Inl JSONDecodeError
                    | Some v \<Rightarrow> Inr v)
               | _ \<Rightarrow> Inl AttributeError))))))"

text \<open>
  The body of the \<^verbatim>\<open>try\<close>: the request, \<^verbatim>\<open>raise_for_status\<close> (which raises for the statuses
  400 to 599), \<^verbatim>\<open>response.json()\<close> and the extraction.
\<close>

definition generate_try :: "env \<Rightarrow> string \<Rightarrow> string \<Rightarrow> event list \<Rightarrow> exn + json" where
  "generate_try env title content tr =
     (case requests_post env tr title content of
        RequestFailed \<Rightarrow> Inl RequestException
      | Response status body \<Rightarrow>
          if 400 \<le> status \<and> status < 600 then Inl HTTPError
          else (case json_loads env body of
                  None \<Rightarrow> Inl JSONDecodeError
                | Some result \<Rightarrow> extract_meta env result))"

text \<open>
  \<^verbatim>\<open>generate_meta_with_deepseek(title, content)\<close>: every exception of the body is caught
  and \<^verbatim>\<open>None\<close> is returned for it. The Python value \<^verbatim>\<open>None\<close> is \<^const>\<open>JNull\<close>.
\<close>

definition generate_meta_with_deepseek ::
  "env \<Rightarrow> string \<Rightarrow> string \<Rightarrow> event list \<Rightarrow> json \<times> event list" where
  "generate_meta_with_deepseek env title content tr =
     (case generate_try env title content tr of
        Inl e \<Rightarrow> JNull
      | Inr v \<Rightarrow> v,
      tr @ [Post title content])"

subsection \<open>Metadata writer\<close>

definition update_content_meta ::
  "env \<Rightarrow> sqlval \<Rightarrow> json \<Rightarrow> json \<Rightarrow> event list \<Rightarrow> bool \<times> event list" where
  "update_content_meta env record_id meta_keywords meta_description tr =
     (let (ok1, tr1) = db_call env Cursor tr in
      if \<not> ok1 then (False, tr1)
      else
        let (ok2, tr2) = db_call env (ExecuteUpdate meta_keywords meta_description record_id) tr1 in
        if \<not> ok2 then (False, tr2)
        else
          let (ok3, tr3) = db_call env Commit tr2 in
          if \<not> ok3 then (False, tr3) else (True, tr3))"

subsection \<open>Batch orchestrator\<close>

record batch_result =
  success :: nat
  skipped_empty :: nat
  skipped_api_errors :: nat
  skipped_db_errors :: nat
  skipped_state :: nat

text \<open>
  Lines 126 and 127 print the id and the first 50 characters of the title: a missing key
  raises \<^verbatim>\<open>KeyError\<close>, a title that is not a text raises \<^verbatim>\<open>TypeError\<close>. The printed
  text itself is not part of the trace.
\<close>

definition print_header :: "content_record \<Rightarrow> exn + sqlval \<times> string" where
  "print_header record =
     andthen (dict_item record ''id'') (\<lambda>record_id.
     andthen (dict_item record ''title'') (\<lambda>title.
       case title of StrV t \<Rightarrow> Inr (record_id, t) | _ \<Rightarrow> Inl TypeError))"

text \<open>\<^verbatim>\<open>v == 0\<close> on a column value.\<close>

fun eq_zero :: "sqlval \<Rightarrow> bool" where
  "eq_zero (IntV i) = (i = 0)"
| "eq_zero _ = False"

text \<open>
  The body of the loop for the \<open>i\<close>-th of \<open>n\<close> records. The three \<^verbatim>\<open>continue\<close> statements
  leave the body before the \<^verbatim>\<open>time.sleep\<close> at its end. An exception that the body does
  not catch is \<open>Inl\<close>: it ends \<^verbatim>\<open>process_records\<close>.
\<close>

definition loop_body ::
  "env \<Rightarrow> nat \<Rightarrow> nat \<Rightarrow> content_record \<Rightarrow> batch_result \<times> event list
     \<Rightarrow> exn + batch_result \<times> event list" where
  "loop_body env n i record st =
     (case st of (c, tr) \<Rightarrow>
      andthen (print_header record) (\<lambda>(record_id, title).
        if eq_zero (dict_get record ''state'' (IntV 1))
        then Inr (c\<lparr>skipped_state := skipped_state c + 1\<rparr>, tr)
        else
          andthen (get_clean_content env record) (\<lambda>clean_content.
            if clean_content = [] \<or> strip clean_content = []
            then Inr (c\<lparr>skipped_empty := skipped_empty c + 1\<rparr>, tr)
            else
              let (meta_data, tr1) = generate_meta_with_deepseek env title clean_content tr in
              if \<not> truthy meta_data
              then Inr (c\<lparr>skipped_api_errors := skipped_api_errors c + 1\<rparr>, tr1)
              else
                andthen (item_str meta_data ''meta_keywords'') (\<lambda>meta_keywords.
                andthen (item_str meta_data ''meta_description'') (\<lambda>meta_description.
                  let (ok, tr2) =
                        update_content_meta env record_id meta_keywords meta_description tr1;
                      c' = (if ok then c\<lparr>success := success c + 1\<rparr>
                            else c\<lparr>skipped_db_errors := skipped_db_errors c + 1\<rparr>);
                      tr3 = (if i < n then tr2 @ [Sleep API_DELAY] else tr2)
                  in Inr (c', tr3))))))"

text \<open>\<^verbatim>\<open>for i, record in enumerate(records, 1)\<close>, with \<open>n = len(records)\<close>.\<close>

fun loop ::
  "env \<Rightarrow> nat \<Rightarrow> nat \<Rightarrow> content_record list \<Rightarrow> batch_result \<times> event list
     \<Rightarrow> exn + batch_result \<times> event list" where
  "loop env n i [] st = Inr st"
| "loop env n i (record # records) st =
     (case loop_body env n i record st of
        Inl e \<Rightarrow> Inl e
      | Inr st' \<Rightarrow> loop env n (i + 1) records st')"

definition process_records ::
  "env \<Rightarrow> content_record list \<Rightarrow> event list \<Rightarrow> exn + batch_result \<times> event list" where
  "process_records env records tr =
     loop env (length records) 1 records
       (\<lparr>success = 0, skipped_empty = 0, skipped_api_errors = 0,
         skipped_db_errors = 0, skipped_state = 0\<rparr>, tr)"

subsection \<open>Stand-ins for the collaborators, for running the script on examples\<close>

text \<open>
  A parser stand-in. Like \<^verbatim>\<open>html.parser\<close>, it rejects markup that holds the marked section
  \<^verbatim>\<open><![foo]>\<close>; of any other markup it yields the text outside angle brackets.
\<close>

fun strip_tags :: "bool \<Rightarrow> string \<Rightarrow> string" where
  "strip_tags in_tag [] = []"
| "strip_tags in_tag (c # cs) =
     (if c = CHR ''<'' then strip_tags True cs
      else if c = CHR ''>'' then strip_tags False cs
      else if in_tag then strip_tags in_tag cs
      else c # strip_tags in_tag cs)"

definition stub_parser :: "string \<Rightarrow> exn + string" where
  "stub_parser s =
     (if is_infix ''<![foo]>'' s then Inl ParserRejectedMarkup else Inr (strip_tags False s))"

text \<open>
  A world where the service gives one fixed answer, \<^verbatim>\<open>json.loads\<close> decodes the listed
  texts only, and the database calls listed in \<open>failing\<close> raise.
\<close>

definition stub_env ::
  "post_result \<Rightarrow> (string \<times> json) list \<Rightarrow> db_op list \<Rightarrow> content_record list \<Rightarrow> env" where
  "stub_env answer decodes failing rows =
     \<lparr>get_text = stub_parser,
      json_loads = map_of decodes,
      requests_post = (\<lambda>tr title content. answer),
      db_raises = (\<lambda>tr op. op \<in> set failing),
      content_table = rows\<rparr>"

text \<open>
  The text of a JSON string literal for \<open>s\<close> (quotes and backslashes escaped), the body of
  a chat completion whose first choice carries the text \<open>payload\<close>, and what
  \<^verbatim>\<open>response.json()\<close> makes of that body.
\<close>

definition json_quote :: "string \<Rightarrow> string" where
  "json_quote s =
     [CHR 0x22] @ concat (map (\<lambda>c. if c = CHR 0x22 \<or> c = CHR 0x5C then [CHR 0x5C, c] else [c]) s)
       @ [CHR 0x22]"

definition chat_body :: "string \<Rightarrow> string" where
  \<open>chat_body payload = ''{"choices": [{"message": {"content": '' @ json_quote payload @ ''}}]}''\<close>

definition chat_response :: "string \<Rightarrow> json" where
  "chat_response payload =
     JObj [(''choices'', JArr [JObj [(''message'', JObj [(''content'', JStr payload)])]])]"

text \<open>
  A world where the service answers with the given status and a chat completion carrying
  \<open>payload\<close>, which \<^verbatim>\<open>json.loads\<close> decodes to \<open>decoded\<close> (or rejects, for \<open>None\<close>).
\<close>

definition chat_env :: "nat \<Rightarrow> string \<Rightarrow> json option \<Rightarrow> db_op list \<Rightarrow> env" where
  "chat_env status payload decoded failing =
     stub_env (Response status (chat_body payload))
       ((chat_body payload, chat_response payload) #
        (case decoded of None \<Rightarrow> [] | Some v \<Rightarrow> [(payload, v)]))
       failing []"

text \<open>The record, the payload and the metadata of the specification's end-to-end scenario.\<close>

definition rome_record :: content_record where
  "rome_record =
     [(''id'', IntV 1), (''title'', StrV ''Rome''),
      (''fulltext'', StrV ''<p>Rome is a city.</p>''), (''state'', IntV 1)]"

definition rome_payload :: string where
  \<open>rome_payload = ''{"meta_keywords": "rome, city", "meta_description": "Discover Rome today."}''\<close>

definition rome_meta :: json where
  "rome_meta =
     JObj [(''meta_keywords'', JStr ''rome, city''),
           (''meta_description'', JStr ''Discover Rome today.'')]"

text \<open>An unpublished record, and a record with no \<^verbatim>\<open>state\<close> key.\<close>

definition draft_record :: content_record where
  "draft_record =
     [(''id'', IntV 2), (''title'', StrV ''Draft''),
      (''fulltext'', StrV ''<p>Not yet.</p>''), (''state'', IntV 0)]"

definition stateless_record :: content_record where
  "stateless_record =
     [(''id'', IntV 3), (''title'', StrV ''Blank''), (''fulltext'', StrV ''<p> </p>''),
      (''introtext'', Null)]"

text \<open>A record whose \<^verbatim>\<open>fulltext\<close> is blank and whose \<^verbatim>\<open>introtext\<close> has the text.\<close>

definition intro_record :: content_record where
  "intro_record =
     [(''id'', IntV 4), (''title'', StrV ''Intro''), (''fulltext'', StrV ''  ''),
      (''introtext'', StrV ''<p>Short intro.</p>''), (''state'', IntV 1)]"

text \<open>A published record whose body is markup that the parser rejects.\<close>

definition marked_record :: content_record where
  "marked_record =
     [(''id'', IntV 5), (''title'', StrV ''Marked''), (''fulltext'', StrV ''<![foo]>''),
      (''state'', IntV 1)]"

text \<open>The counters at the start of a batch.\<close>

definition no_results :: batch_result where
  "no_results =
     \<lparr>success = 0, skipped_empty = 0, skipped_api_errors = 0,
      skipped_db_errors = 0, skipped_state = 0\<rparr>"

text \<open>A payload that is valid JSON but has one of the two keys only.\<close>

definition partial_payload :: string where
  \<open>partial_payload = ''{"meta_keywords": "rome, city"}''\<close>

definition partial_meta :: json where
  "partial_meta = JObj [(''meta_keywords'', JStr ''rome, city'')]"

subsection \<open>The expected response shape, in the words of the specification\<close>

text \<open>
  The specification expects ``a response containing a list of choices whose first
  element's message content is a JSON string''. \<open>message_content\<close> is that string when the
  decoded response has this shape.
\<close>

definition message_content :: "json \<Rightarrow> string option" where
  "message_content result =
     (case result of
        JObj d \<Rightarrow>
          (case map_of d ''choices'' of
             Some (JArr (choice # rest)) \<Rightarrow>
               (case choice of
                  JObj c \<Rightarrow>
                    (case map_of c ''message'' of
                       Some (JObj m) \<Rightarrow>
                         (case map_of m ''content'' of
                            Some (JStr s) \<Rightarrow> Some s
                          | _ \<Rightarrow> None)
                     | _ \<Rightarrow> None)
                | _ \<Rightarrow> None)
           | _ \<Rightarrow> None)
      | _ \<Rightarrow> None)"

section \<open>Properties\<close>

subsection \<open>Trimming\<close>

lemma dropWhile_strip: "dropWhile isspace (strip s) = strip s"
proof (cases "dropWhile isspace s")
  case Nil
  show ?thesis unfolding strip_def Nil by simp
next
  case (Cons y ys)
  then have y: "\<not> isspace y"
    by (metis hd_dropWhile list.distinct(1) list.sel(1))
  have "rev (dropWhile isspace (rev (y # ys))) = y # rev (dropWhile isspace (rev ys))"
    using y by (simp add: dropWhile_append)
  then show ?thesis
    unfolding strip_def Cons using y by simp
qed

lemma dropWhile_rev_strip: "dropWhile isspace (rev (strip s)) = rev (strip s)"
  by (simp add: strip_def)

lemma strip_Nil: "strip [] = []"
  by (simp add: strip_def)

lemma strip_strip: "strip (strip s) = strip s"
  using dropWhile_strip[of s] dropWhile_rev_strip[of s]
  by (metis rev_rev_ident strip_def)

subsection \<open>HTML text extractor\<close>

text \<open>
  What \<^const>\<open>strip\<close> keeps: the text is the result between two runs of whitespace, and the
  result neither starts nor ends with whitespace.
\<close>

lemma strip_decomposition:
  "\<exists>pre post. s = pre @ strip s @ post \<and> list_all isspace pre \<and> list_all isspace post"
proof -
  let ?rest = "dropWhile isspace s"
  have "rev ?rest = takeWhile isspace (rev ?rest) @ dropWhile isspace (rev ?rest)"
    by simp
  then have "rev (rev ?rest) =
      rev (dropWhile isspace (rev ?rest)) @ rev (takeWhile isspace (rev ?rest))"
    by (metis rev_append)
  then have rest: "?rest = strip s @ rev (takeWhile isspace (rev ?rest))"
    by (simp add: strip_def)
  have "s = takeWhile isspace s @ ?rest"
    by simp
  with rest have "s = takeWhile isspace s @ strip s @ rev (takeWhile isspace (rev ?rest))"
    by simp
  moreover have "list_all isspace (takeWhile isspace s)"
    by (simp add: list_all_iff) (meson set_takeWhileD)
  moreover have "list_all isspace (rev (takeWhile isspace (rev ?rest)))"
    by (simp add: list_all_iff) (meson set_takeWhileD)
  ultimately show ?thesis
    by blast
qed

lemma strip_ends:
  "strip s = [] \<or> (\<not> isspace (hd (strip s)) \<and> \<not> isspace (last (strip s)))"
proof (cases "strip s = []")
  case True
  then show ?thesis by simp
next
  case False
  have "\<not> isspace (hd (strip s))"
    using False dropWhile_strip[of s] by (metis hd_dropWhile)
  moreover have "\<not> isspace (hd (rev (strip s)))"
    using False dropWhile_rev_strip[of s] by (metis hd_dropWhile rev_is_Nil_conv)
  then have "\<not> isspace (last (strip s))"
    using False by (simp add: hd_rev)
  ultimately show ?thesis
    by simp
qed

text \<open>
  For the null input and for the empty string \<^const>\<open>clean_html_text\<close> returns the empty string
  without calling the parser. For any other string it returns the trimmed text of the parser
  when the parser yields one, and raises what the parser raises otherwise.
\<close>

lemma clean_html_text_empty:
  "clean_html_text env Null = Inr []" "clean_html_text env (StrV []) = Inr []"
  by (simp_all add: clean_html_text_def)

lemma clean_html_text_accepted:
  "h \<noteq> [] \<Longrightarrow> get_text env h = Inr t \<Longrightarrow> clean_html_text env (StrV h) = Inr (strip t)"
  by (simp add: clean_html_text_def)

lemma clean_html_text_rejected:
  "h \<noteq> [] \<Longrightarrow> get_text env h = Inl e \<Longrightarrow> clean_html_text env (StrV h) = Inl e"
  by (simp add: clean_html_text_def)

lemma stub_parser_example:
  "clean_html_text (stub_env RequestFailed [] [] []) (StrV ''  <p>Rome is a city.</p>  '') =
     Inr ''Rome is a city.''"
  by (simp add: clean_html_text_def stub_env_def stub_parser_def strip_def isspace_def)

text \<open>
  C8. The extractor is to return a text for every input and never to raise on malformed
  markup. On the markup \<^verbatim>\<open><![foo]>\<close>, which the parser rejects, \<^const>\<open>clean_html_text\<close> raises
  \<^verbatim>\<open>ParserRejectedMarkup\<close>, and a batch that holds a published record with this body ends
  with the exception, before the next record and with no result.
\<close>

theorem clean_html_text_raises_on_rejected_markup:
  "clean_html_text (stub_env RequestFailed [] [] []) (StrV ''<![foo]>'') =
     Inl ParserRejectedMarkup \<and>
   process_records (stub_env RequestFailed [] [] []) [marked_record, rome_record] [] =
     Inl ParserRejectedMarkup"
proof -
  let ?env = "stub_env RequestFailed [] [] []"
  have parser: "get_text ?env ''<![foo]>'' = Inl ParserRejectedMarkup"
    by (simp add: stub_env_def stub_parser_def)
  have clean: "clean_html_text ?env (StrV ''<![foo]>'') = Inl ParserRejectedMarkup"
    by (rule clean_html_text_rejected[OF _ parser]) simp
  have content: "get_clean_content ?env marked_record = Inl ParserRejectedMarkup"
    unfolding get_clean_content_def
    by (simp add: marked_record_def dict_get_def strip_def isspace_def clean)
  have header: "print_header marked_record = Inr (IntV 5, ''Marked'')"
    by (simp add: print_header_def marked_record_def dict_item_def andthen_def)
  have state: "\<not> eq_zero (dict_get marked_record ''state'' (IntV 1))"
    by (simp add: marked_record_def dict_get_def)
  have body: "loop_body ?env n i marked_record (c, tr) = Inl ParserRejectedMarkup" for n i c tr
    by (simp add: loop_body_def header state content andthen_def)
  have "process_records ?env [marked_record, rome_record] [] = Inl ParserRejectedMarkup"
    by (simp add: process_records_def body)
  with clean show ?thesis
    by simp
qed

subsection \<open>Metadata writer\<close>

lemma db_call_eq:
  "db_call env op tr = (\<not> db_raises env tr op, tr @ [Db op (\<not> db_raises env tr op)])"
  by (simp add: db_call_def Let_def)

lemma update_content_meta_cases:
  "update_content_meta env rid kw desc tr =
     (if db_raises env tr Cursor then (False, tr @ [Db Cursor False])
      else if db_raises env (tr @ [Db Cursor True]) (ExecuteUpdate kw desc rid)
      then (False, tr @ [Db Cursor True, Db (ExecuteUpdate kw desc rid) False])
      else if db_raises env (tr @ [Db Cursor True, Db (ExecuteUpdate kw desc rid) True]) Commit
      then (False, tr @ [Db Cursor True, Db (ExecuteUpdate kw desc rid) True, Db Commit False])
      else (True, tr @ [Db Cursor True, Db (ExecuteUpdate kw desc rid) True, Db Commit True]))"
  by (simp add: update_content_meta_def db_call_eq)

text \<open>
  C6. \<^const>\<open>update_content_meta\<close> always returns a boolean. When opening the cursor, the
  \<^verbatim>\<open>UPDATE\<close> or the commit raises the storage error, it returns \<open>False\<close>. When it returns
  \<open>True\<close>, what it did on the connection is exactly: open a cursor, execute the update of
  \<^verbatim>\<open>metakey\<close> and \<^verbatim>\<open>metadesc\<close> with the given keywords and description for the given id,
  and commit, each completed, the commit last.
\<close>

theorem update_content_meta_true_after_commit:
  "(db_raises env tr Cursor \<or>
    db_raises env (tr @ [Db Cursor True]) (ExecuteUpdate kw desc rid) \<or>
    db_raises env (tr @ [Db Cursor True, Db (ExecuteUpdate kw desc rid) True]) Commit
      \<longrightarrow> fst (update_content_meta env rid kw desc tr) = False) \<and>
   (fst (update_content_meta env rid kw desc tr) = True
      \<longrightarrow> snd (update_content_meta env rid kw desc tr) =
            tr @ [Db Cursor True, Db (ExecuteUpdate kw desc rid) True, Db Commit True])"
  by (simp add: update_content_meta_cases)

theorem update_content_meta_true_after_commit_witness:
  "fst (update_content_meta (stub_env RequestFailed [] [Commit] []) (IntV 1)
          (JStr ''rome, city'') (JStr ''Discover Rome today.'') []) = False \<and>
   update_content_meta (stub_env RequestFailed [] [] []) (IntV 1)
     (JStr ''rome, city'') (JStr ''Discover Rome today.'') [] =
     (True, [Db Cursor True,
             Db (ExecuteUpdate (JStr ''rome, city'') (JStr ''Discover Rome today.'') (IntV 1)) True,
             Db Commit True])"
proof -
  let ?kw = "JStr ''rome, city''" and ?desc = "JStr ''Discover Rome today.''"
  have fails: "db_raises (stub_env RequestFailed [] [Commit] [])
                 ([] @ [Db Cursor True, Db (ExecuteUpdate ?kw ?desc (IntV 1)) True]) Commit"
    by (simp add: stub_env_def)
  have ok: "fst (update_content_meta (stub_env RequestFailed [] [] []) (IntV 1) ?kw ?desc []) = True"
    by (simp add: update_content_meta_cases stub_env_def)
  from fails
    update_content_meta_true_after_commit
      [of "stub_env RequestFailed [] [Commit] []" "[]" ?kw ?desc "IntV 1"]
  have a: "fst (update_content_meta (stub_env RequestFailed [] [Commit] []) (IntV 1) ?kw ?desc []) = False"
    by blast
  from ok
    update_content_meta_true_after_commit
      [of "stub_env RequestFailed [] [] []" "[]" ?kw ?desc "IntV 1"]
  have b: "snd (update_content_meta (stub_env RequestFailed [] [] []) (IntV 1) ?kw ?desc []) =
             [] @ [Db Cursor True, Db (ExecuteUpdate ?kw ?desc (IntV 1)) True, Db Commit True]"
    by blast
  from a b ok show ?thesis
    by (simp add: prod_eq_iff)
qed

subsection \<open>Metadata generator\<close>

lemma map_of_Some_in_keys: "map_of d k = Some v \<Longrightarrow> k \<in> set (map fst d)"
  by (metis map_of_eq_None_iff option.distinct(1) set_map)

lemma extract_meta_shape:
  "message_content result = Some s \<Longrightarrow>
   extract_meta env result =
     (case json_loads env (strip_fences s) of None \<Rightarrow> Inl JSONDecodeError | Some v \<Rightarrow> Inr v)"
  by (auto simp: message_content_def extract_meta_def andthen_def
           dest: map_of_Some_in_keys
           split: json.splits option.splits list.splits)

lemma item_0_JStr: "item_0 (JStr s) = Inr x \<Longrightarrow> \<exists>c. x = JStr [c]"
  by (cases s) auto

lemma extract_meta_no_shape:
  "message_content result = None \<Longrightarrow> extract_meta env result = Inr v \<Longrightarrow> v = JNull"
  by (cases result)
     (auto simp: message_content_def extract_meta_def andthen_def
           dest: item_0_JStr
           split: json.splits option.splits list.splits if_splits sum.splits)

lemma generate_meta_trace:
  "snd (generate_meta_with_deepseek env title content tr) = tr @ [Post title content]"
  by (simp add: generate_meta_with_deepseek_def)

lemma generate_meta_eq:
  "fst (generate_meta_with_deepseek env title content tr) =
     (case requests_post env tr title content of
        RequestFailed \<Rightarrow> JNull
      | Response status body \<Rightarrow>
          if 400 \<le> status \<and> status < 600 then JNull
          else (case json_loads env body of
                  None \<Rightarrow> JNull
                | Some result \<Rightarrow>
                    (case message_content result of
                       None \<Rightarrow> JNull
                     | Some s \<Rightarrow>
                         (case json_loads env (strip_fences s) of
                            None \<Rightarrow> JNull
                          | Some v \<Rightarrow> v))))"
proof -
  have shape: "(case extract_meta env result of Inl e \<Rightarrow> JNull | Inr v \<Rightarrow> v) =
      (case message_content result of
         None \<Rightarrow> JNull
       | Some s \<Rightarrow> (case json_loads env (strip_fences s) of None \<Rightarrow> JNull | Some v \<Rightarrow> v))"
    for result
  proof (cases "message_content result")
    case None
    then show ?thesis
      using extract_meta_no_shape[OF None, of env]
      by (auto split: sum.splits)
  next
    case (Some s)
    then show ?thesis
      by (simp add: extract_meta_shape split: option.splits)
  qed
  show ?thesis
  proof (cases "requests_post env tr title content")
    case RequestFailed
    then show ?thesis
      by (simp add: generate_meta_with_deepseek_def generate_try_def)
  next
    case (Response status body)
    show ?thesis
    proof (cases "json_loads env body")
      case None
      with Response show ?thesis
        by (simp add: generate_meta_with_deepseek_def generate_try_def)
    next
      case (Some result)
      with Response shape[of result] show ?thesis
        by (simp add: generate_meta_with_deepseek_def generate_try_def)
    qed
  qed
qed

lemma strip_fences_rome: "strip_fences rome_payload = rome_payload"
  by (simp add: strip_fences_def rome_payload_def replace_def strip_def isspace_def)

lemma chat_env_fields:
  "requests_post (chat_env status payload decoded failing) tr title content =
     Response status (chat_body payload)"
  "json_loads (chat_env status payload decoded failing) (chat_body payload) =
     Some (chat_response payload)"
  "db_raises (chat_env status payload decoded failing) tr op = (op \<in> set failing)"
  "get_text (chat_env status payload decoded failing) = stub_parser"
  by (simp_all add: chat_env_def stub_env_def)

lemma message_content_chat: "message_content (chat_response payload) = Some payload"
  by (simp add: message_content_def chat_response_def)

lemma chat_body_neq_rome: "chat_body rome_payload \<noteq> rome_payload"
  by (simp add: chat_body_def rome_payload_def)

lemma rome_generated:
  "fst (generate_meta_with_deepseek (chat_env 200 rome_payload (Some rome_meta) failing)
          title content tr) = rome_meta"
  by (simp add: generate_meta_eq chat_env_fields message_content_chat strip_fences_rome)
     (simp add: chat_env_def stub_env_def chat_body_neq_rome[symmetric] )

subsection \<open>One iteration of the batch loop\<close>

lemma get_clean_content_stripped: "get_clean_content env r = Inr t \<Longrightarrow> strip t = t"
  by (auto simp: get_clean_content_def clean_html_text_def Let_def strip_Nil strip_strip
           split: if_splits sqlval.splits sum.splits)

lemma loop_body_unpublished:
  "print_header r = Inr (rid, title) \<Longrightarrow> eq_zero (dict_get r ''state'' (IntV 1)) \<Longrightarrow>
   loop_body env n i r (c, tr) = Inr (c\<lparr>skipped_state := skipped_state c + 1\<rparr>, tr)"
  by (simp add: loop_body_def andthen_def)

lemma loop_body_empty:
  "print_header r = Inr (rid, title) \<Longrightarrow> \<not> eq_zero (dict_get r ''state'' (IntV 1)) \<Longrightarrow>
   get_clean_content env r = Inr [] \<Longrightarrow>
   loop_body env n i r (c, tr) = Inr (c\<lparr>skipped_empty := skipped_empty c + 1\<rparr>, tr)"
  by (simp add: loop_body_def andthen_def)

lemma loop_body_generated:
  "print_header r = Inr (rid, title) \<Longrightarrow> \<not> eq_zero (dict_get r ''state'' (IntV 1)) \<Longrightarrow>
   get_clean_content env r = Inr content \<Longrightarrow> content \<noteq> [] \<Longrightarrow>
   loop_body env n i r (c, tr) =
     (let meta_data = fst (generate_meta_with_deepseek env title content tr);
          tr1 = tr @ [Post title content]
      in if \<not> truthy meta_data
         then Inr (c\<lparr>skipped_api_errors := skipped_api_errors c + 1\<rparr>, tr1)
         else
           andthen (item_str meta_data ''meta_keywords'') (\<lambda>meta_keywords.
           andthen (item_str meta_data ''meta_description'') (\<lambda>meta_description.
             Inr (if fst (update_content_meta env rid meta_keywords meta_description tr1)
                  then c\<lparr>success := success c + 1\<rparr>
                  else c\<lparr>skipped_db_errors := skipped_db_errors c + 1\<rparr>,
                  if i < n
                  then snd (update_content_meta env rid meta_keywords meta_description tr1)
                         @ [Sleep API_DELAY]
                  else snd (update_content_meta env rid meta_keywords meta_description tr1)))))"
  using get_clean_content_stripped[of env r content]
  by (simp add: loop_body_def andthen_def Let_def split_beta generate_meta_trace
           split: sum.splits)


subsection \<open>The scenario record\<close>

lemma rome_header: "print_header rome_record = Inr (IntV 1, ''Rome'')"
  by (simp add: print_header_def rome_record_def dict_item_def andthen_def)

lemma rome_published: "\<not> eq_zero (dict_get rome_record ''state'' (IntV 1))"
  by (simp add: rome_record_def dict_get_def)

lemma rome_clean:
  "get_text env = stub_parser \<Longrightarrow> get_clean_content env rome_record = Inr ''Rome is a city.''"
  by (simp add: get_clean_content_def clean_html_text_def rome_record_def dict_get_def
        stub_parser_def
        strip_def isspace_def)

subsection \<open>What the generator returns\<close>

text \<open>
  The failures that the generator turns into null. For every title and content,
  \<^const>\<open>generate_meta_with_deepseek\<close> returns (it never raises), and it returns null
  \<^item> when the request fails on the network,
  \<^item> when the response has a status from 400 to 599,
  \<^item> when the response body is not JSON,
  \<^item> when the decoded response has not the expected shape (a list of choices whose first
    element's message content is a string),
  \<^item> when that content, without its code fences, is not JSON.
\<close>

theorem generate_meta_null_on_failure:
  "(requests_post env tr title content = RequestFailed
      \<longrightarrow> fst (generate_meta_with_deepseek env title content tr) = JNull) \<and>
   (requests_post env tr title content = Response status body \<and> 400 \<le> status \<and> status < 600
      \<longrightarrow> fst (generate_meta_with_deepseek env title content tr) = JNull) \<and>
   (requests_post env tr title content = Response status body \<and> json_loads env body = None
      \<longrightarrow> fst (generate_meta_with_deepseek env title content tr) = JNull) \<and>
   (requests_post env tr title content = Response status body \<and>
    json_loads env body = Some result \<and> message_content result = None
      \<longrightarrow> fst (generate_meta_with_deepseek env title content tr) = JNull) \<and>
   (requests_post env tr title content = Response status body \<and>
    json_loads env body = Some result \<and> message_content result = Some s \<and>
    json_loads env (strip_fences s) = None
      \<longrightarrow> fst (generate_meta_with_deepseek env title content tr) = JNull)"
  by (simp add: generate_meta_eq)

lemma strip_fences_partial: "strip_fences partial_payload = partial_payload"
  by (simp add: strip_fences_def partial_payload_def replace_def strip_def isspace_def)

lemma chat_env_decodes:
  "chat_body payload \<noteq> payload \<Longrightarrow>
   json_loads (chat_env status payload decoded failing) payload = decoded"
  by (cases decoded) (simp_all add: chat_env_def stub_env_def)

lemma chat_body_neq_partial: "chat_body partial_payload \<noteq> partial_payload"
  by (simp add: chat_body_def partial_payload_def)

text \<open>
  C3. The generator is to return null for a response that lacks the expected shape, a
  decoded payload without the key \<^verbatim>\<open>meta_keywords\<close> or \<^verbatim>\<open>meta_description\<close> included, so that
  the orchestrator never receives partial metadata. On a response with the status 200 whose
  payload decodes to an object with \<^verbatim>\<open>meta_keywords\<close> only,
  \<^const>\<open>generate_meta_with_deepseek\<close> returns that object, not null. The object is truthy: it
  passes \<^verbatim>\<open>if not meta_data\<close>, and the batch ends with \<^verbatim>\<open>KeyError\<close> at
  \<^verbatim>\<open>meta_data['meta_description']\<close>, before the next record and with no result.
\<close>

theorem generate_meta_returns_one_key_payload:
  "fst (generate_meta_with_deepseek (chat_env 200 partial_payload (Some partial_meta) [])
          ''Rome'' ''Rome is a city.'' []) = partial_meta \<and>
   partial_meta \<noteq> JNull \<and>
   truthy partial_meta \<and>
   item_str partial_meta ''meta_description'' = Inl KeyError \<and>
   process_records (chat_env 200 partial_payload (Some partial_meta) [])
     [rome_record, draft_record] [] = Inl KeyError"
proof -
  let ?env = "chat_env 200 partial_payload (Some partial_meta) []"
  have gen: "fst (generate_meta_with_deepseek ?env ''Rome'' ''Rome is a city.'' []) = partial_meta"
    by (simp add: generate_meta_eq chat_env_fields message_content_chat
          chat_env_decodes strip_fences_partial chat_body_neq_partial)
  have keys: "item_str partial_meta ''meta_keywords'' = Inr (JStr ''rome, city'')"
    "item_str partial_meta ''meta_description'' = Inl KeyError" "truthy partial_meta"
    by (simp_all add: partial_meta_def)
  have body: "loop_body ?env n i rome_record (c, []) = Inl KeyError" for c n i
    using loop_body_generated[OF rome_header rome_published rome_clean, of ?env n i c "[]"]
    by (simp add: chat_env_fields gen keys andthen_def)
  have run: "process_records ?env [rome_record, draft_record] [] = Inl KeyError"
    by (simp add: process_records_def body)
  show ?thesis
    using gen keys run by (simp add: partial_meta_def)
qed

theorem generate_meta_null_on_failure_witness:
  \<open>fst (generate_meta_with_deepseek (stub_env RequestFailed [] [] [])
          ''Rome'' ''Rome is a city.'' []) = JNull \<and>
   fst (generate_meta_with_deepseek (chat_env 500 rome_payload (Some rome_meta) [])
          ''Rome'' ''Rome is a city.'' []) = JNull \<and>
   fst (generate_meta_with_deepseek (stub_env (Response 200 ''<html>Bad Gateway</html>'') [] [] [])
          ''Rome'' ''Rome is a city.'' []) = JNull \<and>
   fst (generate_meta_with_deepseek
          (stub_env (Response 200 ''{"error": "rate limited"}'')
             [(''{"error": "rate limited"}'', JObj [(''error'', JStr ''rate limited'')])] [] [])
          ''Rome'' ''Rome is a city.'' []) = JNull \<and>
   fst (generate_meta_with_deepseek (chat_env 200 ''Sure! Here is the JSON.'' None [])
          ''Rome'' ''Rome is a city.'' []) = JNull\<close>
proof -
  let ?G = "\<lambda>env. fst (generate_meta_with_deepseek env ''Rome'' ''Rome is a city.'' [])"
  let ?e1 = "stub_env RequestFailed [] [] []"
  have "requests_post ?e1 [] ''Rome'' ''Rome is a city.'' = RequestFailed"
    by (simp add: stub_env_def)
  with generate_meta_null_on_failure[of ?e1 "[]" "''Rome''" "''Rome is a city.''"]
  have g1: "?G ?e1 = JNull"
    by blast
  let ?e2 = "chat_env 500 rome_payload (Some rome_meta) []"
  have "requests_post ?e2 [] ''Rome'' ''Rome is a city.'' = Response 500 (chat_body rome_payload)
          \<and> (400::nat) \<le> 500 \<and> (500::nat) < 600"
    by (simp add: chat_env_fields)
  with generate_meta_null_on_failure
         [of ?e2 "[]" "''Rome''" "''Rome is a city.''" 500 "chat_body rome_payload"]
  have g2: "?G ?e2 = JNull"
    by blast
  let ?b3 = "''<html>Bad Gateway</html>''"
  let ?e3 = "stub_env (Response 200 ?b3) [] [] []"
  have "requests_post ?e3 [] ''Rome'' ''Rome is a city.'' = Response 200 ?b3
          \<and> json_loads ?e3 ?b3 = None"
    by (simp add: stub_env_def)
  with generate_meta_null_on_failure[of ?e3 "[]" "''Rome''" "''Rome is a city.''" 200 ?b3]
  have g3: "?G ?e3 = JNull"
    by blast
  let ?b4 = \<open>''{"error": "rate limited"}''\<close>
  let ?r4 = "JObj [(''error'', JStr ''rate limited'')]"
  let ?e4 = "stub_env (Response 200 ?b4) [(?b4, ?r4)] [] []"
  have "requests_post ?e4 [] ''Rome'' ''Rome is a city.'' = Response 200 ?b4
          \<and> json_loads ?e4 ?b4 = Some ?r4 \<and> message_content ?r4 = None"
    by (simp add: stub_env_def message_content_def)
  with generate_meta_null_on_failure[of ?e4 "[]" "''Rome''" "''Rome is a city.''" 200 ?b4 ?r4]
  have g4: "?G ?e4 = JNull"
    by blast
  let ?p5 = "''Sure! Here is the JSON.''"
  let ?e5 = "chat_env 200 ?p5 None []"
  have p5: "strip_fences ?p5 = ?p5" "chat_body ?p5 \<noteq> ?p5"
    by (simp_all add: strip_fences_def replace_def strip_def isspace_def chat_body_def)
  have "requests_post ?e5 [] ''Rome'' ''Rome is a city.'' = Response 200 (chat_body ?p5)
          \<and> json_loads ?e5 (chat_body ?p5) = Some (chat_response ?p5)
          \<and> message_content (chat_response ?p5) = Some ?p5
          \<and> json_loads ?e5 (strip_fences ?p5) = None"
    by (simp add: chat_env_fields message_content_chat p5 chat_env_decodes)
  with generate_meta_null_on_failure
         [of ?e5 "[]" "''Rome''" "''Rome is a city.''" 200 "chat_body ?p5" "chat_response ?p5" ?p5]
  have g5: "?G ?e5 = JNull"
    by blast
  from g1 g2 g3 g4 g5 show ?thesis
    by simp
qed

text \<open>
  C10. When the request succeeds, the response has the expected shape and its payload
  decodes to a falsy value \<open>v\<close> (the empty object, for one), the generator returns \<open>v\<close>,
  and the loop counts the record under \<^verbatim>\<open>skipped_api_errors\<close>, as it does when the generator
  returns null: the test is \<^verbatim>\<open>if not meta_data\<close>.
\<close>

theorem falsy_metadata_is_api_error:
  assumes "requests_post env tr title content = Response status body"
    and "\<not> (400 \<le> status \<and> status < 600)"
    and "json_loads env body = Some result"
    and "message_content result = Some s"
    and "json_loads env (strip_fences s) = Some v"
    and "\<not> truthy v"
    and "print_header record = Inr (rid, title)"
    and "\<not> eq_zero (dict_get record ''state'' (IntV 1))"
    and "get_clean_content env record = Inr content"
    and "content \<noteq> []"
  shows "generate_meta_with_deepseek env title content tr = (v, tr @ [Post title content]) \<and>
         loop_body env n i record (c, tr) =
           Inr (c\<lparr>skipped_api_errors := skipped_api_errors c + 1\<rparr>, tr @ [Post title content])"
proof -
  have gen: "fst (generate_meta_with_deepseek env title content tr) = v"
    using assms(1-5) by (auto simp: generate_meta_eq)
  then have "generate_meta_with_deepseek env title content tr = (v, tr @ [Post title content])"
    using generate_meta_trace[of env title content tr] by (simp add: prod_eq_iff)
  moreover have "loop_body env n i record (c, tr) =
      Inr (c\<lparr>skipped_api_errors := skipped_api_errors c + 1\<rparr>, tr @ [Post title content])"
    using loop_body_generated[OF assms(7-10), of n i c tr] gen assms(6) by simp
  ultimately show ?thesis
    by simp
qed

theorem falsy_metadata_is_api_error_witness:
  "generate_meta_with_deepseek (chat_env 200 ''{}'' (Some (JObj [])) [])
     ''Rome'' ''Rome is a city.'' [] = (JObj [], [Post ''Rome'' ''Rome is a city.'']) \<and>
   loop_body (chat_env 200 ''{}'' (Some (JObj [])) []) 1 1 rome_record
     (\<lparr>success = 0, skipped_empty = 0, skipped_api_errors = 0,
       skipped_db_errors = 0, skipped_state = 0\<rparr>, []) =
     Inr (\<lparr>success = 0, skipped_empty = 0, skipped_api_errors = 1,
           skipped_db_errors = 0, skipped_state = 0\<rparr>, [Post ''Rome'' ''Rome is a city.''])"
proof -
  let ?env = "chat_env 200 ''{}'' (Some (JObj [])) []"
  have p: "strip_fences ''{}'' = ''{}''" "chat_body ''{}'' \<noteq> ''{}''"
    by (simp_all add: strip_fences_def replace_def strip_def isspace_def chat_body_def)
  have h1: "requests_post ?env [] ''Rome'' ''Rome is a city.'' = Response 200 (chat_body ''{}'')"
    and h2: "\<not> (400 \<le> (200::nat) \<and> (200::nat) < 600)"
    and h3: "json_loads ?env (chat_body ''{}'') = Some (chat_response ''{}'')"
    and h4: "message_content (chat_response ''{}'') = Some ''{}''"
    and h5: "json_loads ?env (strip_fences ''{}'') = Some (JObj [])"
    and h6: "\<not> truthy (JObj [])"
    by (simp_all add: chat_env_fields message_content_chat p chat_env_decodes)
  have h9: "get_clean_content ?env rome_record = Inr ''Rome is a city.''"
    by (rule rome_clean) (simp add: chat_env_fields)
  have h10: "''Rome is a city.'' \<noteq> []"
    by simp
  from falsy_metadata_is_api_error[OF h1 h2 h3 h4 h5 h6 rome_header rome_published h9 h10,
      of 1 1 "\<lparr>success = 0, skipped_empty = 0, skipped_api_errors = 0,
                skipped_db_errors = 0, skipped_state = 0\<rparr>"]
  show ?thesis
    by simp
qed

subsection \<open>The outcomes of an iteration\<close>

lemma loop_body_cases:
  assumes "loop_body env n i r (c, tr) = Inr (c', tr')"
  obtains
    (unpublished) "eq_zero (dict_get r ''state'' (IntV 1))"
      "c' = c\<lparr>skipped_state := skipped_state c + 1\<rparr>" "tr' = tr"
  | (empty) "\<not> eq_zero (dict_get r ''state'' (IntV 1))"
      "get_clean_content env r = Inr []"
      "c' = c\<lparr>skipped_empty := skipped_empty c + 1\<rparr>" "tr' = tr"
  | (api) rid title content where
      "print_header r = Inr (rid, title)" "get_clean_content env r = Inr content"
      "\<not> truthy (fst (generate_meta_with_deepseek env title content tr))"
      "c' = c\<lparr>skipped_api_errors := skipped_api_errors c + 1\<rparr>"
      "tr' = tr @ [Post title content]"
  | (written) rid title content kw desc where
      "print_header r = Inr (rid, title)" "get_clean_content env r = Inr content"
      "truthy (fst (generate_meta_with_deepseek env title content tr))"
      "item_str (fst (generate_meta_with_deepseek env title content tr)) ''meta_keywords'' = Inr kw"
      "item_str (fst (generate_meta_with_deepseek env title content tr)) ''meta_description'' = Inr desc"
      "c' = (if fst (update_content_meta env rid kw desc (tr @ [Post title content]))
            then c\<lparr>success := success c + 1\<rparr>
            else c\<lparr>skipped_db_errors := skipped_db_errors c + 1\<rparr>)"
      "tr' = snd (update_content_meta env rid kw desc (tr @ [Post title content]))
               @ (if i < n then [Sleep API_DELAY] else [])"
proof -
  obtain rid title where h: "print_header r = Inr (rid, title)"
    using assms by (cases "print_header r") (auto simp: loop_body_def andthen_def)
  show ?thesis
  proof (cases "eq_zero (dict_get r ''state'' (IntV 1))")
    case True
    with assms h unpublished show ?thesis
      by (simp add: loop_body_unpublished)
  next
    case pub: False
    obtain content where cc: "get_clean_content env r = Inr content"
      using assms h pub
      by (cases "get_clean_content env r") (auto simp: loop_body_def andthen_def)
    show ?thesis
    proof (cases "content = []")
      case True
      with assms h pub cc empty show ?thesis
        by (simp add: loop_body_empty)
    next
      case False
      note eq = loop_body_generated[OF h pub cc False, of n i c tr]
      show ?thesis
      proof (cases "truthy (fst (generate_meta_with_deepseek env title content tr))")
        case False
        with assms eq api[OF h cc] show ?thesis
          by (simp add: Let_def)
      next
        case True
        with assms eq written[OF h cc True] show ?thesis
          by (auto simp: Let_def andthen_def split: sum.splits if_splits)
      qed
    qed
  qed
qed

lemma update_content_meta_trace:
  "\<exists>ops. snd (update_content_meta env rid kw desc tr) = tr @ ops \<and> (\<forall>d. Sleep d \<notin> set ops)"
  by (simp add: update_content_meta_cases)



lemma loop_append:
  "loop env n i (xs @ ys) st =
     (case loop env n i xs st of Inl e \<Rightarrow> Inl e | Inr st' \<Rightarrow> loop env n (i + length xs) ys st')"
  by (induction xs arbitrary: i st) (auto split: sum.splits)

subsection \<open>Example runs\<close>

lemma rome_success:
  "loop_body (chat_env 200 rome_payload (Some rome_meta) []) n i rome_record (c, tr) =
     Inr (c\<lparr>success := success c + 1\<rparr>,
          tr @ [Post ''Rome'' ''Rome is a city.'', Db Cursor True,
                Db (ExecuteUpdate (JStr ''rome, city'') (JStr ''Discover Rome today.'') (IntV 1)) True,
                Db Commit True] @ (if i < n then [Sleep API_DELAY] else []))"
proof -
  let ?env = "chat_env 200 rome_payload (Some rome_meta) []"
  have clean: "get_clean_content ?env rome_record = Inr ''Rome is a city.''"
    by (rule rome_clean) (simp add: chat_env_fields)
  have keys: "truthy rome_meta"
    "item_str rome_meta ''meta_keywords'' = Inr (JStr ''rome, city'')"
    "item_str rome_meta ''meta_description'' = Inr (JStr ''Discover Rome today.'')"
    by (simp_all add: rome_meta_def)
  show ?thesis
    using loop_body_generated[OF rome_header rome_published clean, of n i c tr]
    by (simp add: rome_generated keys andthen_def update_content_meta_cases chat_env_fields)
qed

lemma draft_skipped:
  "loop_body env n i draft_record (c, tr) = Inr (c\<lparr>skipped_state := skipped_state c + 1\<rparr>, tr)"
  by (rule loop_body_unpublished[where rid = "IntV 2" and title = "''Draft''"])
     (simp_all add: print_header_def draft_record_def dict_item_def dict_get_def andthen_def)

lemma stateless_empty:
  "get_text env = stub_parser \<Longrightarrow>
   loop_body env n i stateless_record (c, tr) = Inr (c\<lparr>skipped_empty := skipped_empty c + 1\<rparr>, tr)"
  by (rule loop_body_empty[where rid = "IntV 3" and title = "''Blank''"])
     (simp_all add: print_header_def stateless_record_def dict_item_def dict_get_def andthen_def
        get_clean_content_def clean_html_text_def strip_def isspace_def stub_parser_def)

subsection \<open>When the batch returns\<close>

lemma loop_body_one_outcome:
  assumes "loop_body env n i r (c, tr) = Inr (c', tr')"
  shows "c' = c\<lparr>success := success c + 1\<rparr> \<or>
         c' = c\<lparr>skipped_empty := skipped_empty c + 1\<rparr> \<or>
         c' = c\<lparr>skipped_api_errors := skipped_api_errors c + 1\<rparr> \<or>
         c' = c\<lparr>skipped_db_errors := skipped_db_errors c + 1\<rparr> \<or>
         c' = c\<lparr>skipped_state := skipped_state c + 1\<rparr>"
  using assms by (cases rule: loop_body_cases) auto

lemma loop_body_returns:
  assumes "print_header r = Inr (rid, title)"
    and "get_clean_content env r = Inr content"
    and "\<And>title content tr.
           truthy (fst (generate_meta_with_deepseek env title content tr)) \<Longrightarrow>
           \<exists>kw desc.
             item_str (fst (generate_meta_with_deepseek env title content tr)) ''meta_keywords''
               = Inr kw \<and>
             item_str (fst (generate_meta_with_deepseek env title content tr)) ''meta_description''
               = Inr desc"
  shows "\<exists>st'. loop_body env n i r (c, tr) = Inr st'"
proof (cases "eq_zero (dict_get r ''state'' (IntV 1))")
  case True
  with assms(1) show ?thesis
    by (simp add: loop_body_unpublished)
next
  case pub: False
  show ?thesis
  proof (cases "content = []")
    case True
    with assms(1,2) pub show ?thesis
      by (simp add: loop_body_empty)
  next
    case False
    show ?thesis
    proof (cases "truthy (fst (generate_meta_with_deepseek env title content tr))")
      case True
      from assms(3)[OF True] obtain kw desc where
        "item_str (fst (generate_meta_with_deepseek env title content tr)) ''meta_keywords''
           = Inr kw"
        "item_str (fst (generate_meta_with_deepseek env title content tr)) ''meta_description''
           = Inr desc"
        by blast
      with True show ?thesis
        by (simp add: loop_body_generated[OF assms(1) pub assms(2) False] andthen_def Let_def)
    next
      case False
      with \<open>content \<noteq> []\<close> show ?thesis
        by (simp add: loop_body_generated[OF assms(1) pub assms(2)] Let_def)
    qed
  qed
qed

lemma loop_returns:
  assumes "\<And>r. r \<in> set rs \<Longrightarrow> \<exists>rid title. print_header r = Inr (rid, title)"
    and "\<And>r. r \<in> set rs \<Longrightarrow> \<exists>content. get_clean_content env r = Inr content"
    and "\<And>title content tr.
           truthy (fst (generate_meta_with_deepseek env title content tr)) \<Longrightarrow>
           \<exists>kw desc.
             item_str (fst (generate_meta_with_deepseek env title content tr)) ''meta_keywords''
               = Inr kw \<and>
             item_str (fst (generate_meta_with_deepseek env title content tr)) ''meta_description''
               = Inr desc"
  shows "\<exists>st'. loop env n i rs st = Inr st'"
  using assms(1,2)
proof (induction rs arbitrary: i st)
  case Nil
  then show ?case by simp
next
  case (Cons r rs)
  obtain c tr where st: "st = (c, tr)"
    by (cases st)
  from Cons.prems(1)[of r] Cons.prems(2)[of r] obtain rid title content where
    "print_header r = Inr (rid, title)" "get_clean_content env r = Inr content"
    by auto
  from loop_body_returns[OF this assms(3), of n i c tr] obtain st1 where
    step: "loop_body env n i r st = Inr st1"
    unfolding st by blast
  have "\<exists>st'. loop env n (i + 1) rs st1 = Inr st'"
    by (rule Cons.IH) (simp_all add: Cons.prems)
  with step show ?case
    by simp
qed

lemma process_records_returns:
  assumes "\<And>r. r \<in> set records \<Longrightarrow> \<exists>rid title. print_header r = Inr (rid, title)"
    and "\<And>r. r \<in> set records \<Longrightarrow> \<exists>content. get_clean_content env r = Inr content"
    and "\<And>title content tr.
           truthy (fst (generate_meta_with_deepseek env title content tr)) \<Longrightarrow>
           \<exists>kw desc.
             item_str (fst (generate_meta_with_deepseek env title content tr)) ''meta_keywords''
               = Inr kw \<and>
             item_str (fst (generate_meta_with_deepseek env title content tr)) ''meta_description''
               = Inr desc"
  shows "\<exists>res tr'. process_records env records tr = Inr (res, tr')"
  using loop_returns[OF assms, of records "length records" 1] 
  by (simp add: process_records_def)

subsection \<open>The counters\<close>



subsection \<open>Unpublished records\<close>

lemma print_header_eq:
  "map_of record ''id'' = Some rid \<Longrightarrow> map_of record ''title'' = Some (StrV title) \<Longrightarrow>
   print_header record = Inr (rid, title)"
  by (simp add: print_header_def dict_item_def andthen_def)

lemma loop_body_default_state:
  assumes "map_of record ''state'' = None"
  shows "loop_body env n i ((''state'', IntV 1) # record) st = loop_body env n i record st"
proof -
  have header: "print_header ((''state'', IntV 1) # record) = print_header record"
    by (simp add: print_header_def dict_item_def)
  have texts:
    "dict_get ((''state'', IntV 1) # record) ''fulltext'' d = dict_get record ''fulltext'' d"
    "dict_get ((''state'', IntV 1) # record) ''introtext'' d = dict_get record ''introtext'' d"
    for d
    by (simp_all add: dict_get_def)
  have clean: "get_clean_content env ((''state'', IntV 1) # record) = get_clean_content env record"
    unfolding get_clean_content_def texts ..
  have state: "dict_get ((''state'', IntV 1) # record) ''state'' (IntV 1) =
               dict_get record ''state'' (IntV 1)"
    using assms by (simp add: dict_get_def)
  show ?thesis
    unfolding loop_body_def header clean state ..
qed

text \<open>
  C4. A record with an id and a text title whose \<^verbatim>\<open>state\<close> is 0 is counted under
  \<^verbatim>\<open>skipped_state\<close> and the trace is left as it was: no request to the generator, no call
  on the database, no pause. A record with no \<^verbatim>\<open>state\<close> key is read as having the state 1:
  the loop treats it as it treats the same record with \<^verbatim>\<open>state = 1\<close>, and whatever the outcome,
  \<^verbatim>\<open>skipped_state\<close> stays as it was.
\<close>

theorem unpublished_record_is_skipped:
  assumes "map_of record ''id'' = Some rid" and "map_of record ''title'' = Some (StrV title)"
  shows "(map_of record ''state'' = Some (IntV 0) \<longrightarrow>
            loop_body env n i record (c, tr) =
              Inr (c\<lparr>skipped_state := skipped_state c + 1\<rparr>, tr)) \<and>
         (map_of record ''state'' = None \<longrightarrow>
            dict_get record ''state'' (IntV 1) = IntV 1 \<and>
            loop_body env n i record (c, tr) =
              loop_body env n i ((''state'', IntV 1) # record) (c, tr) \<and>
            (\<forall>c' tr'. loop_body env n i record (c, tr) = Inr (c', tr')
               \<longrightarrow> skipped_state c' = skipped_state c))"
proof (intro conjI impI allI)
  assume "map_of record ''state'' = Some (IntV 0)"
  then show "loop_body env n i record (c, tr) = Inr (c\<lparr>skipped_state := skipped_state c + 1\<rparr>, tr)"
    using print_header_eq[OF assms] by (simp add: loop_body_unpublished dict_get_def)
next
  assume "map_of record ''state'' = None"
  then show "dict_get record ''state'' (IntV 1) = IntV 1"
    by (simp add: dict_get_def)
next
  assume "map_of record ''state'' = None"
  then show "loop_body env n i record (c, tr) = loop_body env n i ((''state'', IntV 1) # record) (c, tr)"
    by (simp add: loop_body_default_state)
next
  fix c' tr'
  assume absent: "map_of record ''state'' = None"
    and run: "loop_body env n i record (c, tr) = Inr (c', tr')"
  from absent have "\<not> eq_zero (dict_get record ''state'' (IntV 1))"
    by (simp add: dict_get_def)
  with run show "skipped_state c' = skipped_state c"
    by (cases rule: loop_body_cases) (auto split: if_splits)
qed

theorem unpublished_record_is_skipped_witness:
  "loop_body (chat_env 200 rome_payload (Some rome_meta) []) 2 1 draft_record (no_results, []) =
     Inr (no_results\<lparr>skipped_state := 1\<rparr>, []) \<and>
   dict_get stateless_record ''state'' (IntV 1) = IntV 1 \<and>
   loop_body (chat_env 200 rome_payload (Some rome_meta) []) 2 1 stateless_record (no_results, []) =
     Inr (no_results\<lparr>skipped_empty := 1\<rparr>, [])"
proof -
  let ?env = "chat_env 200 rome_payload (Some rome_meta) []"
  have d: "map_of draft_record ''id'' = Some (IntV 2)"
    "map_of draft_record ''title'' = Some (StrV ''Draft'')"
    "map_of draft_record ''state'' = Some (IntV 0)"
    by (simp_all add: draft_record_def)
  have s: "map_of stateless_record ''id'' = Some (IntV 3)"
    "map_of stateless_record ''title'' = Some (StrV ''Blank'')"
    "map_of stateless_record ''state'' = None"
    by (simp_all add: stateless_record_def)
  from unpublished_record_is_skipped[OF d(1,2), of ?env 2 1 no_results "[]"] d(3)
  have a: "loop_body ?env 2 1 draft_record (no_results, []) =
             Inr (no_results\<lparr>skipped_state := skipped_state no_results + 1\<rparr>, [])"
    by blast
  from unpublished_record_is_skipped[OF s(1,2), of ?env 2 1 no_results "[]"] s(3)
  have b: "dict_get stateless_record ''state'' (IntV 1) = IntV 1"
    and b': "\<forall>c' tr'. loop_body ?env 2 1 stateless_record (no_results, []) = Inr (c', tr')
               \<longrightarrow> skipped_state c' = skipped_state no_results"
    by blast+
  have e: "loop_body ?env 2 1 stateless_record (no_results, []) =
             Inr (no_results\<lparr>skipped_empty := skipped_empty no_results + 1\<rparr>, [])"
    by (rule stateless_empty) (simp add: chat_env_fields)
  from a b e show ?thesis
    by (simp add: no_results_def)
qed

subsection \<open>Body choice and empty content\<close>

lemma strip_nonempty: "strip f \<noteq> [] \<Longrightarrow> f \<noteq> []"
  by (auto simp: strip_Nil)

text \<open>
  C5. The body given to the extractor is \<^verbatim>\<open>fulltext\<close> when that is a text which is not
  empty after trimming; when \<^verbatim>\<open>fulltext\<close> is absent, null, empty or whitespace, it is
  \<^verbatim>\<open>introtext\<close> (the empty string when absent). And a published record with an id and a
  text title whose extracted text is empty or whitespace is counted under \<^verbatim>\<open>skipped_empty\<close>
  with the trace left as it was: no request to the generator, no call on the database.
\<close>

theorem body_choice_and_empty_skip:
  "(map_of record ''fulltext'' = Some (StrV f) \<and> strip f \<noteq> []
      \<longrightarrow> get_clean_content env record = clean_html_text env (StrV f)) \<and>
   (map_of record ''fulltext'' = None \<or> map_of record ''fulltext'' = Some Null \<or>
    (map_of record ''fulltext'' = Some (StrV f) \<and> strip f = [])
      \<longrightarrow> get_clean_content env record =
            clean_html_text env (dict_get record ''introtext'' (StrV []))) \<and>
   (map_of record ''id'' = Some rid \<and> map_of record ''title'' = Some (StrV title) \<and>
    \<not> eq_zero (dict_get record ''state'' (IntV 1)) \<and>
    get_clean_content env record = Inr t \<and> strip t = []
      \<longrightarrow> loop_body env n i record (c, tr) =
            Inr (c\<lparr>skipped_empty := skipped_empty c + 1\<rparr>, tr))"
proof (intro conjI impI)
  assume "map_of record ''fulltext'' = Some (StrV f) \<and> strip f \<noteq> []"
  then show "get_clean_content env record = clean_html_text env (StrV f)"
    using strip_nonempty[of f] by (simp add: get_clean_content_def dict_get_def)
next
  assume "map_of record ''fulltext'' = None \<or> map_of record ''fulltext'' = Some Null \<or>
          (map_of record ''fulltext'' = Some (StrV f) \<and> strip f = [])"
  then show "get_clean_content env record =
             clean_html_text env (dict_get record ''introtext'' (StrV []))"
    by (auto simp: get_clean_content_def dict_get_def)
next
  assume a: "map_of record ''id'' = Some rid \<and> map_of record ''title'' = Some (StrV title) \<and>
    \<not> eq_zero (dict_get record ''state'' (IntV 1)) \<and>
    get_clean_content env record = Inr t \<and> strip t = []"
  then have "t = []"
    using get_clean_content_stripped[of env "record" t] by simp
  with a show "loop_body env n i record (c, tr) =
               Inr (c\<lparr>skipped_empty := skipped_empty c + 1\<rparr>, tr)"
    using loop_body_empty[OF print_header_eq, of "record" rid title env n i c tr] by simp
qed

theorem body_choice_and_empty_skip_witness:
  "get_clean_content (stub_env RequestFailed [] [] []) rome_record = Inr ''Rome is a city.'' \<and>
   get_clean_content (stub_env RequestFailed [] [] []) intro_record = Inr ''Short intro.'' \<and>
   loop_body (stub_env RequestFailed [] [] []) 1 1 stateless_record (no_results, []) =
     Inr (no_results\<lparr>skipped_empty := 1\<rparr>, [])"
proof -
  let ?env = "stub_env RequestFailed [] [] []"
  have gt: "get_text ?env = stub_parser"
    by (simp add: stub_env_def)
  have r: "map_of rome_record ''fulltext'' = Some (StrV ''<p>Rome is a city.</p>'') \<and>
           strip ''<p>Rome is a city.</p>'' \<noteq> []"
    by (simp add: rome_record_def strip_def isspace_def)
  from body_choice_and_empty_skip[of rome_record "''<p>Rome is a city.</p>''" ?env] r
  have "get_clean_content ?env rome_record = clean_html_text ?env (StrV ''<p>Rome is a city.</p>'')"
    by blast
  then have a: "get_clean_content ?env rome_record = Inr ''Rome is a city.''"
    by (simp add: clean_html_text_def gt strip_def isspace_def stub_parser_def)
  have i: "map_of intro_record ''fulltext'' = Some (StrV ''  '') \<and> strip ''  '' = []"
    by (simp add: intro_record_def strip_def isspace_def)
  from body_choice_and_empty_skip[of intro_record "''  ''" ?env] i
  have "get_clean_content ?env intro_record =
          clean_html_text ?env (dict_get intro_record ''introtext'' (StrV []))"
    by blast
  then have b: "get_clean_content ?env intro_record = Inr ''Short intro.''"
    by (simp add: clean_html_text_def gt strip_def isspace_def intro_record_def dict_get_def
          stub_parser_def)
  have s: "map_of stateless_record ''id'' = Some (IntV 3) \<and>
           map_of stateless_record ''title'' = Some (StrV ''Blank'') \<and>
           \<not> eq_zero (dict_get stateless_record ''state'' (IntV 1)) \<and>
           get_clean_content ?env stateless_record = Inr [] \<and> strip [] = []"
    by (simp add: stateless_record_def dict_get_def get_clean_content_def clean_html_text_def gt
          strip_def isspace_def stub_parser_def)
  from body_choice_and_empty_skip
         [of stateless_record _ ?env "IntV 3" "''Blank''" "[]" 1 1 no_results "[]"] s
  have "loop_body ?env 1 1 stateless_record (no_results, []) =
          Inr (no_results\<lparr>skipped_empty := skipped_empty no_results + 1\<rparr>, [])"
    by blast
  then have c: "loop_body ?env 1 1 stateless_record (no_results, []) =
                  Inr (no_results\<lparr>skipped_empty := 1\<rparr>, [])"
    by (simp add: no_results_def)
  from a b c show ?thesis
    by simp
qed

subsection \<open>Writing the generated metadata\<close>

text \<open>
  C7. For a published record with an id, a text title and a non-empty cleaned content, for
  which the generator returns an object with the keys \<^verbatim>\<open>meta_keywords\<close> and
  \<^verbatim>\<open>meta_description\<close>: the writer is called once, after the request, with the record's id
  and the two generated values as they are. When the writer returns true the record is
  counted under \<^verbatim>\<open>success\<close>, and the update with exactly these values was executed and
  committed; when it returns false the record is counted under \<^verbatim>\<open>skipped_db_errors\<close>, and
  the last call on the connection raised.
\<close>

theorem success_applies_generated_metadata:
  assumes "map_of record ''id'' = Some rid"
    and "map_of record ''title'' = Some (StrV title)"
    and "\<not> eq_zero (dict_get record ''state'' (IntV 1))"
    and "get_clean_content env record = Inr content"
    and "content \<noteq> []"
    and "fst (generate_meta_with_deepseek env title content tr) = JObj meta"
    and "map_of meta ''meta_keywords'' = Some kw"
    and "map_of meta ''meta_description'' = Some desc"
  shows "loop_body env n i record (c, tr) =
           Inr (if fst (update_content_meta env rid kw desc (tr @ [Post title content]))
                then c\<lparr>success := success c + 1\<rparr>
                else c\<lparr>skipped_db_errors := skipped_db_errors c + 1\<rparr>,
                snd (update_content_meta env rid kw desc (tr @ [Post title content]))
                  @ (if i < n then [Sleep API_DELAY] else [])) \<and>
         (if fst (update_content_meta env rid kw desc (tr @ [Post title content]))
          then snd (update_content_meta env rid kw desc (tr @ [Post title content])) =
                 tr @ [Post title content, Db Cursor True,
                       Db (ExecuteUpdate kw desc rid) True, Db Commit True]
          else \<exists>op. last (snd (update_content_meta env rid kw desc (tr @ [Post title content])))
                 = Db op False)"
proof -
  have "meta \<noteq> []"
    using assms(7) by auto
  then have "truthy (JObj meta)"
    by simp
  then have "loop_body env n i record (c, tr) =
           Inr (if fst (update_content_meta env rid kw desc (tr @ [Post title content]))
                then c\<lparr>success := success c + 1\<rparr>
                else c\<lparr>skipped_db_errors := skipped_db_errors c + 1\<rparr>,
                snd (update_content_meta env rid kw desc (tr @ [Post title content]))
                  @ (if i < n then [Sleep API_DELAY] else []))"
    using loop_body_generated[OF print_header_eq[OF assms(1,2)] assms(3-5), of n i c tr]
      assms(6-8)
    by (simp add: andthen_def)
  then show ?thesis
    by (simp add: update_content_meta_cases)
qed

theorem success_applies_generated_metadata_witness:
  "loop_body (chat_env 200 rome_payload (Some rome_meta) []) 1 1 rome_record (no_results, []) =
     Inr (no_results\<lparr>success := 1\<rparr>,
          [Post ''Rome'' ''Rome is a city.'', Db Cursor True,
           Db (ExecuteUpdate (JStr ''rome, city'') (JStr ''Discover Rome today.'') (IntV 1)) True,
           Db Commit True]) \<and>
   loop_body (chat_env 200 rome_payload (Some rome_meta) [Commit]) 1 1 rome_record (no_results, []) =
     Inr (no_results\<lparr>skipped_db_errors := 1\<rparr>,
          [Post ''Rome'' ''Rome is a city.'', Db Cursor True,
           Db (ExecuteUpdate (JStr ''rome, city'') (JStr ''Discover Rome today.'') (IntV 1)) True,
           Db Commit False])"
proof -
  let ?kw = "JStr ''rome, city''" and ?desc = "JStr ''Discover Rome today.''"
  let ?meta = "[(''meta_keywords'', ?kw), (''meta_description'', ?desc)]"
  have h1: "map_of rome_record ''id'' = Some (IntV 1)"
    and h2: "map_of rome_record ''title'' = Some (StrV ''Rome'')"
    by (simp_all add: rome_record_def)
  have h4: "get_clean_content (chat_env 200 rome_payload (Some rome_meta) failing) rome_record =
              Inr ''Rome is a city.''" for failing
    by (rule rome_clean) (simp add: chat_env_fields)
  have h5: "''Rome is a city.'' \<noteq> []"
    by simp
  have h6: "fst (generate_meta_with_deepseek (chat_env 200 rome_payload (Some rome_meta) failing)
                   ''Rome'' ''Rome is a city.'' []) = JObj ?meta" for failing
    unfolding rome_meta_def[symmetric] by (rule rome_generated)
  have h7: "map_of ?meta ''meta_keywords'' = Some ?kw"
    and h8: "map_of ?meta ''meta_description'' = Some ?desc"
    by simp_all
  from success_applies_generated_metadata
         [OF h1 h2 rome_published h4 h5 h6 h7 h8, of "[]" 1 1 no_results]
  have a: "loop_body (chat_env 200 rome_payload (Some rome_meta) []) 1 1 rome_record (no_results, []) =
     Inr (no_results\<lparr>success := 1\<rparr>,
          [Post ''Rome'' ''Rome is a city.'', Db Cursor True,
           Db (ExecuteUpdate ?kw ?desc (IntV 1)) True, Db Commit True])"
    by (simp add: update_content_meta_cases chat_env_fields no_results_def)
  from success_applies_generated_metadata
         [OF h1 h2 rome_published h4 h5 h6 h7 h8, of "[Commit]" 1 1 no_results]
  have b: "loop_body (chat_env 200 rome_payload (Some rome_meta) [Commit]) 1 1 rome_record
             (no_results, []) =
     Inr (no_results\<lparr>skipped_db_errors := 1\<rparr>,
          [Post ''Rome'' ''Rome is a city.'', Db Cursor True,
           Db (ExecuteUpdate ?kw ?desc (IntV 1)) True, Db Commit False])"
    by (simp add: update_content_meta_cases chat_env_fields no_results_def)
  from a b show ?thesis
    by simp
qed

subsection \<open>The pause between records\<close>

lemma process_records_split:
  "process_records env (before @ r # after) tr0 =
     (case loop env (length (before @ r # after)) 1 before (no_results, tr0) of
        Inl e \<Rightarrow> Inl e
      | Inr st \<Rightarrow>
          (case loop_body env (length (before @ r # after)) (length before + 1) r st of
             Inl e \<Rightarrow> Inl e
           | Inr st' \<Rightarrow> loop env (length (before @ r # after)) (length before + 2) after st'))"
  by (simp add: process_records_def loop_append no_results_def split: sum.splits)

text \<open>
  C1, amended. Take a batch that runs to its end and any record of it, reached in the state
  \<open>(c, tr)\<close>. When the record ends as \<^verbatim>\<open>success\<close> or \<^verbatim>\<open>skipped_db_errors\<close>, its handling ends
  with one pause of \<^const>\<open>API_DELAY\<close> unless it is the last record of the batch, and there is
  no other pause in it. When the record ends as \<^verbatim>\<open>skipped_state\<close> or \<^verbatim>\<open>skipped_empty\<close>, nothing
  happens at all: no pause follows it, last or not.
\<close>

theorem delay_after_written_records:
  assumes "process_records env (before @ r # after) tr0 = Inr (res, tr_end)"
    and "loop env (length (before @ r # after)) 1 before (no_results, tr0) = Inr (c, tr)"
  shows "\<exists>c' tr'.
           loop_body env (length (before @ r # after)) (length before + 1) r (c, tr)
             = Inr (c', tr') \<and>
           (success c' = success c + 1 \<or> skipped_db_errors c' = skipped_db_errors c + 1
              \<longrightarrow> (\<exists>ops. tr' = tr @ ops @ (if after = [] then [] else [Sleep API_DELAY]) \<and>
                        (\<forall>d. Sleep d \<notin> set ops))) \<and>
           (skipped_state c' = skipped_state c + 1 \<or> skipped_empty c' = skipped_empty c + 1
              \<longrightarrow> tr' = tr)"
proof -
  let ?n = "length (before @ r # after)"
  from assms obtain c' tr' where
    step: "loop_body env ?n (length before + 1) r (c, tr) = Inr (c', tr')"
    by (auto simp: process_records_split split: sum.splits)
  have last: "(length before + 1 < ?n) = (after \<noteq> [])"
    by auto
  from step have
    "(success c' = success c + 1 \<or> skipped_db_errors c' = skipped_db_errors c + 1
        \<longrightarrow> (\<exists>ops. tr' = tr @ ops @ (if after = [] then [] else [Sleep API_DELAY]) \<and>
                  (\<forall>d. Sleep d \<notin> set ops))) \<and>
     (skipped_state c' = skipped_state c + 1 \<or> skipped_empty c' = skipped_empty c + 1
        \<longrightarrow> tr' = tr)"
  proof (cases rule: loop_body_cases)
    case unpublished
    then show ?thesis by simp
  next
    case empty
    then show ?thesis by simp
  next
    case (api rid title content)
    then show ?thesis by simp
  next
    case (written rid title content kw desc)
    obtain ops where ops:
      "snd (update_content_meta env rid kw desc (tr @ [Post title content])) =
         (tr @ [Post title content]) @ ops" "\<forall>d. Sleep d \<notin> set ops"
      using update_content_meta_trace by blast
    have "tr' = tr @ (Post title content # ops) @ (if after = [] then [] else [Sleep API_DELAY])"
      using written(7) ops(1) last by simp
    moreover have "\<forall>d. Sleep d \<notin> set (Post title content # ops)"
      using ops(2) by simp
    ultimately have "\<exists>ops. tr' = tr @ ops @ (if after = [] then [] else [Sleep API_DELAY]) \<and>
                        (\<forall>d. Sleep d \<notin> set ops)"
      by blast
    moreover have "skipped_state c' = skipped_state c" "skipped_empty c' = skipped_empty c"
      using written(6) by (simp_all split: if_splits)
    ultimately show ?thesis
      by simp
  qed
  with step show ?thesis
    by blast
qed

theorem delay_after_written_records_witness:
  "process_records (chat_env 200 rome_payload (Some rome_meta) [])
     ([draft_record] @ rome_record # [draft_record]) [] =
     Inr (no_results\<lparr>success := 1, skipped_state := 2\<rparr>,
          [Post ''Rome'' ''Rome is a city.'', Db Cursor True,
           Db (ExecuteUpdate (JStr ''rome, city'') (JStr ''Discover Rome today.'') (IntV 1)) True,
           Db Commit True, Sleep API_DELAY]) \<and>
   (\<exists>ops. [Post ''Rome'' ''Rome is a city.'', Db Cursor True,
           Db (ExecuteUpdate (JStr ''rome, city'') (JStr ''Discover Rome today.'') (IntV 1)) True,
           Db Commit True, Sleep API_DELAY] = ops @ [Sleep API_DELAY] \<and>
          (\<forall>d. Sleep d \<notin> set ops))"
proof -
  let ?env = "chat_env 200 rome_payload (Some rome_meta) []"
  let ?tr = "[Post ''Rome'' ''Rome is a city.'', Db Cursor True,
           Db (ExecuteUpdate (JStr ''rome, city'') (JStr ''Discover Rome today.'') (IntV 1)) True,
           Db Commit True, Sleep API_DELAY]"
  have run: "process_records ?env ([draft_record] @ rome_record # [draft_record]) [] =
     Inr (no_results\<lparr>success := 1, skipped_state := 2\<rparr>, ?tr)"
    by (simp add: process_records_def draft_skipped rome_success no_results_def)
  have turn: "loop ?env (length ([draft_record] @ rome_record # [draft_record])) 1 [draft_record]
                (no_results, []) = Inr (no_results\<lparr>skipped_state := 1\<rparr>, [])"
    by (simp add: draft_skipped no_results_def)
  from delay_after_written_records[OF run turn] obtain c' tr' where
    step: "loop_body ?env (length ([draft_record] @ rome_record # [draft_record]))
             (length [draft_record] + 1) rome_record (no_results\<lparr>skipped_state := 1\<rparr>, [])
           = Inr (c', tr')"
    and delay: "success c' = success (no_results\<lparr>skipped_state := 1\<rparr>) + 1 \<or>
                skipped_db_errors c' = skipped_db_errors (no_results\<lparr>skipped_state := 1\<rparr>) + 1
        \<longrightarrow> (\<exists>ops. tr' = [] @ ops @
                    (if [draft_record] = [] then [] else [Sleep API_DELAY]) \<and>
                  (\<forall>d. Sleep d \<notin> set ops))"
    by blast
  from step have c': "c' = no_results\<lparr>skipped_state := 1, success := 1\<rparr>" and tr': "tr' = ?tr"
    by (simp_all add: rome_success no_results_def)
  from delay c' tr' have "\<exists>ops. ?tr = ops @ [Sleep API_DELAY] \<and> (\<forall>d. Sleep d \<notin> set ops)"
    by (simp add: no_results_def)
  with run show ?thesis
    by blast
qed

text \<open>
  C1 as stated fails: in a batch of three records where the first is unpublished and the
  second has no text, neither of them last, the whole trace holds no pause.
\<close>

theorem delay_after_every_record_counterexample:
  "process_records (chat_env 200 rome_payload (Some rome_meta) [])
     [draft_record, stateless_record, rome_record] [] =
     Inr (\<lparr>success = 1, skipped_empty = 1, skipped_api_errors = 0,
           skipped_db_errors = 0, skipped_state = 1\<rparr>,
          [Post ''Rome'' ''Rome is a city.'', Db Cursor True,
           Db (ExecuteUpdate (JStr ''rome, city'') (JStr ''Discover Rome today.'') (IntV 1)) True,
           Db Commit True]) \<and>
   Sleep API_DELAY \<notin> set
          [Post ''Rome'' ''Rome is a city.'', Db Cursor True,
           Db (ExecuteUpdate (JStr ''rome, city'') (JStr ''Discover Rome today.'') (IntV 1)) True,
           Db Commit True]"
  by (simp add: process_records_def draft_skipped stateless_empty chat_env_fields rome_success)

subsection \<open>Content selector\<close>

lemma sorted_take_map: "sorted (map f xs) \<Longrightarrow> sorted (map f (take k xs))"
  by (simp add: take_map[symmetric] sorted_wrt_take del: take_map)

text \<open>
  C9, amended. With a database that raises no error: for a negative limit the query is
  rejected and \<^const>\<open>get_content_records\<close> returns \<open>None\<close>; otherwise it returns the first
  rows of the table in ascending order of id, all of them when the limit is null or 0 (a
  limit of 0 is treated as no limit), and \<open>min limit (number of rows)\<close> of them when the
  limit is positive.
\<close>

theorem get_content_records_ordered_and_bounded:
  assumes "\<forall>t op. \<not> db_raises env t op"
  shows "if (case limit of None \<Rightarrow> False | Some n \<Rightarrow> n < 0)
         then fst (get_content_records env limit tr) = None
         else \<exists>rows.
                fst (get_content_records env limit tr) = Some rows \<and>
                sorted (map row_id rows) \<and>
                rows = take (length rows) (sort_key row_id (content_table env)) \<and>
                length rows =
                  (case limit of
                     None \<Rightarrow> length (content_table env)
                   | Some n \<Rightarrow>
                       if n = 0 then length (content_table env)
                       else min (nat n) (length (content_table env)))"
proof (cases limit)
  case None
  then show ?thesis
    using assms by (simp add: get_content_records_def db_call_eq select_rows_def)
next
  case (Some n)
  consider "n < 0" | "n = 0" | "0 < n"
    by linarith
  then show ?thesis
  proof cases
    case 1
    with Some assms show ?thesis
      by (simp add: get_content_records_def db_call_eq select_rows_def)
  next
    case 2
    with Some assms show ?thesis
      by (simp add: get_content_records_def db_call_eq select_rows_def)
  next
    case 3
    have "take (min (nat n) (length (content_table env))) (sort_key row_id (content_table env)) =
          take (nat n) (sort_key row_id (content_table env))"
      by (simp add: min_def)
    with 3 Some assms show ?thesis
      by (simp add: get_content_records_def db_call_eq select_rows_def sorted_take_map
            min.commute)
  qed
qed

lemma example_ids: "row_id rome_record = 1" "row_id draft_record = 2"
  by (simp_all add: row_id_def rome_record_def draft_record_def)

theorem get_content_records_ordered_and_bounded_witness:
  "fst (get_content_records (stub_env RequestFailed [] [] [draft_record, rome_record])
          (Some 1) []) = Some [rome_record]"
proof -
  let ?env = "stub_env RequestFailed [] [] [draft_record, rome_record]"
  have healthy: "\<forall>t op. \<not> db_raises ?env t op"
    by (simp add: stub_env_def)
  have table: "content_table ?env = [draft_record, rome_record]"
    by (simp add: stub_env_def)
  from get_content_records_ordered_and_bounded[OF healthy, of "Some 1" "[]"]
  obtain rows where
    "fst (get_content_records ?env (Some 1) []) = Some rows"
    "rows = take (length rows) (sort_key row_id (content_table ?env))"
    "length rows = min (nat 1) (length (content_table ?env))"
    by auto
  then show ?thesis
    by (simp add: table example_ids)
qed

text \<open>
  C9 as stated fails: with the limit 0 the selector returns both rows of a table of two,
  more than the limit; with the limit -1 it returns no list at all.
\<close>

theorem limit_zero_is_unbounded_counterexample:
  "fst (get_content_records (stub_env RequestFailed [] [] [draft_record, rome_record])
          (Some 0) []) = Some [rome_record, draft_record] \<and>
   \<not> length [rome_record, draft_record] \<le> (0::nat) \<and>
   fst (get_content_records (stub_env RequestFailed [] [] [draft_record, rome_record])
          (Some (- 1)) []) = None"
  by (simp add: get_content_records_def db_call_eq select_rows_def stub_env_def example_ids)

end
